theory Spec2Isabelle
  imports Main "HOL-Library.Multiset"
begin

section \<open>Python values and exceptions\<close>

text \<open>
  The exceptions of the Python code that a claim depends on. A function that can let one
  escape returns \<open>error + 'a\<close>, with \<open>Inl\<close> for the exception.
\<close>

datatype error = IntegrityError | ValueError | TypeError | AttributeError

section \<open>The database module (\<open>agent_core.py\<close>, part 1)\<close>

text \<open>
  The table \<open>posted_products (product_id TEXT PRIMARY KEY, post_date TIMESTAMP, pin_id TEXT)\<close>
  is the list of its rows, in insertion order. Time stamps are whatever \<open>datetime.now()\<close>
  gives; they are passed in as a number. The application only ever stores
  \<open>str(product['product_id'])\<close>, a string, so the NULL key of SQLite does not occur.
  The parameters \<open>product_id\<close> and \<open>pin_id\<close> of the source are called \<open>ident\<close> and
  \<open>pin\<close> here, since \<open>product_id\<close> is also a column of the feed.
\<close>

record ledger_row =
  row_product_id :: string
  row_post_date :: nat
  row_pin_id :: string

type_synonym database = "ledger_row list"

text \<open>
  \<open>SELECT product_id FROM posted_products WHERE product_id=?\<close>, then \<open>fetchone()\<close>:
  the first matching row, or \<open>None\<close>.
\<close>

definition select_product_id :: "database \<Rightarrow> string \<Rightarrow> string option" where
  "select_product_id db ident =
     (case filter (\<lambda>r. row_product_id r = ident) db of
        [] \<Rightarrow> None
      | r # _ \<Rightarrow> Some (row_product_id r))"

definition is_product_posted :: "database \<Rightarrow> string \<Rightarrow> bool" where
  "is_product_posted db ident = (select_product_id db ident \<noteq> None)"

text \<open>
  \<open>INSERT INTO posted_products ... VALUES (?, ?, ?)\<close>: the primary key makes SQLite
  refuse a second row with the same \<open>product_id\<close>; \<open>sqlite3\<close> raises
  \<open>IntegrityError\<close> and the table is left as it was. \<open>mark_product_posted\<close> has no
  handler, so the exception reaches its caller.
\<close>

definition mark_product_posted :: "database \<Rightarrow> string \<Rightarrow> string \<Rightarrow> nat \<Rightarrow> error + database" where
  "mark_product_posted db ident pin now =
     (if ident \<in> set (map row_product_id db) then Inl IntegrityError
      else Inr (db @ [\<lparr>row_product_id = ident, row_post_date = now, row_pin_id = pin\<rparr>]))"

text \<open>
  Two calls in a row, as two statements of a caller that goes on after a failed call
  with the table it had: the result of each call, and the table after both.
\<close>

definition db_after :: "database \<Rightarrow> error + database \<Rightarrow> database" where
  "db_after db r = (case r of Inl _ \<Rightarrow> db | Inr db' \<Rightarrow> db')"

definition mark_twice ::
  "database \<Rightarrow> string \<Rightarrow> string \<Rightarrow> nat \<Rightarrow> string \<Rightarrow> nat \<Rightarrow>
     (error + database) \<times> (error + database) \<times> database" where
  "mark_twice db ident pin1 now1 pin2 now2 =
     (let r1 = mark_product_posted db ident pin1 now1;
          db1 = db_after db r1;
          r2 = mark_product_posted db1 ident pin2 now2
      in (r1, r2, db_after db1 r2))"

section \<open>Strings\<close>

text \<open>
  A Python string is modelled as the \<open>string\<close> of the bytes of its UTF-8 text; the two
  emoji of the templates are written as their bytes. Python counts, slices and strips by
  character, not by byte: \<open>chars s\<close> is the list of the characters of \<open>s\<close>, each one
  the bytes that encode it (a first byte and the continuation bytes \<open>0x80\<close> to \<open>0xBF\<close>
  that follow it).
\<close>

definition continuation :: "char \<Rightarrow> bool" where
  "continuation c = (128 \<le> (of_char c :: nat) \<and> (of_char c :: nat) < 192)"

fun chars :: "string \<Rightarrow> string list" where
  "chars [] = []"
| "chars (c # cs) =
     (case chars cs of
        [] \<Rightarrow> [c] # Nil
      | w # ws \<Rightarrow>
          (case w of
             [] \<Rightarrow> [c] # ws
           | b # bs \<Rightarrow> if continuation b then (c # w) # ws else [c] # w # ws))"

text \<open>\<open>s[:n]\<close>: the first \<open>n\<close> characters.\<close>

definition slice_to :: "nat \<Rightarrow> string \<Rightarrow> string" where
  "slice_to n s = concat (take n (chars s))"

abbreviation NL :: string where
  "NL \<equiv> [CHR 0x0A]"

abbreviation QUOTE :: string where
  "QUOTE \<equiv> [CHR 0x27]"

text \<open>\<open>sub in s\<close> on strings: \<open>sub\<close> occurs in \<open>s\<close> as a contiguous run.\<close>

fun contains :: "string \<Rightarrow> string \<Rightarrow> bool" where
  "contains sub [] = (sub = [])"
| "contains sub (c # cs) = (take (length sub) (c # cs) = sub \<or> contains sub cs)"

text \<open>
  \<open>s.strip()\<close>: leading and trailing white space removed. \<open>whitespace\<close> lists the
  29 characters for which \<open>str.isspace\<close> holds: \<open>\t \n \v \f \r\<close>, the separators
  \<open>U+001C\<close> to \<open>U+001F\<close>, the blank, \<open>U+0085\<close>, \<open>U+00A0\<close>, \<open>U+1680\<close>,
  \<open>U+2000\<close> to \<open>U+200A\<close>, \<open>U+2028\<close>, \<open>U+2029\<close>, \<open>U+202F\<close>, \<open>U+205F\<close> and
  \<open>U+3000\<close>.
\<close>

definition whitespace :: "string list" where
  "whitespace =
     [[CHR 0x09], [CHR 0x0A], [CHR 0x0B], [CHR 0x0C], [CHR 0x0D],
      [CHR 0x1C], [CHR 0x1D], [CHR 0x1E], [CHR 0x1F], [CHR 0x20],
      [CHR 0xC2, CHR 0x85], [CHR 0xC2, CHR 0xA0], [CHR 0xE1, CHR 0x9A, CHR 0x80],
      [CHR 0xE2, CHR 0x80, CHR 0x80], [CHR 0xE2, CHR 0x80, CHR 0x81],
      [CHR 0xE2, CHR 0x80, CHR 0x82], [CHR 0xE2, CHR 0x80, CHR 0x83],
      [CHR 0xE2, CHR 0x80, CHR 0x84], [CHR 0xE2, CHR 0x80, CHR 0x85],
      [CHR 0xE2, CHR 0x80, CHR 0x86], [CHR 0xE2, CHR 0x80, CHR 0x87],
      [CHR 0xE2, CHR 0x80, CHR 0x88], [CHR 0xE2, CHR 0x80, CHR 0x89],
      [CHR 0xE2, CHR 0x80, CHR 0x8A], [CHR 0xE2, CHR 0x80, CHR 0xA8],
      [CHR 0xE2, CHR 0x80, CHR 0xA9], [CHR 0xE2, CHR 0x80, CHR 0xAF],
      [CHR 0xE2, CHR 0x81, CHR 0x9F], [CHR 0xE3, CHR 0x80, CHR 0x80]]"

definition isspace :: "string \<Rightarrow> bool" where
  "isspace w = (w \<in> set whitespace)"

definition py_strip :: "string \<Rightarrow> string" where
  "py_strip s = concat (rev (dropWhile isspace (rev (dropWhile isspace (chars s)))))"

text \<open>\<open>sep.join(words)\<close>.\<close>

fun py_join :: "string \<Rightarrow> string list \<Rightarrow> string" where
  "py_join sep [] = []"
| "py_join sep [w] = w"
| "py_join sep (w # v # ws) = w @ sep @ py_join sep (v # ws)"

text \<open>\<open>s.split(sep)\<close> with a one-character separator: never an empty list.\<close>

fun py_split :: "char \<Rightarrow> string \<Rightarrow> string list" where
  "py_split sep [] = [Nil]"
| "py_split sep (c # cs) =
     (if c = sep then [] # py_split sep cs
      else (case py_split sep cs of
              [] \<Rightarrow> [c] # Nil
            | w # ws \<Rightarrow> (c # w) # ws))"

text \<open>\<open>str(n)\<close> for a length \<open>n\<close>: its decimal digits.\<close>

fun str_nat :: "nat \<Rightarrow> string" where
  "str_nat n =
     (if n < 10 then [''0123456789'' ! n]
      else str_nat (n div 10) @ [''0123456789'' ! (n mod 10)])"

declare str_nat.simps [simp del]

text \<open>
  \<open>str(xs)\<close> for a list of strings that hold no quote and no backslash, as in
  \<open>f"{required_cols}"\<close>: each in single quotes, separated by a comma and a blank, in
  brackets.
\<close>

definition repr_list :: "string list \<Rightarrow> string" where
  "repr_list xs = ''['' @ py_join '', '' (map (\<lambda>x. QUOTE @ x @ QUOTE) xs) @ '']''"

text \<open>The final line of a text: what follows its last line break.\<close>

definition last_line :: "string \<Rightarrow> string" where
  "last_line s = rev (takeWhile (\<lambda>c. c \<noteq> CHR 0x0A) (rev s))"

section \<open>Random choices\<close>

text \<open>
  The module \<open>random\<close> is Python's, not the repository's. Its source of randomness is
  made explicit: \<open>rng i\<close> is the \<open>i\<close>-th raw draw, and a draw below \<open>n\<close> is
  \<open>rng i mod n\<close>. \<open>random.sample(population, k)\<close> raises \<open>ValueError\<close> when \<open>k\<close>
  exceeds the population; otherwise it copies the population into a pool and, \<open>k\<close> times,
  takes the element at a drawn index of the pool and moves the last element of the pool
  into its place (\<open>result[i] = pool[j]; pool[j] = pool[n - i - 1]\<close>). For a
  population much larger than \<open>k\<close> the library skips the copy and draws indices of the
  population, drawing again on an index already taken; there too the first element is
  the one at the first index drawn and no position is taken twice, which is all that the
  statements below use. \<open>random.choice(seq)\<close> is the element at a drawn index.
\<close>

fun sample_loop :: "(nat \<Rightarrow> nat) \<Rightarrow> nat \<Rightarrow> 'a list \<Rightarrow> nat \<Rightarrow> 'a list" where
  "sample_loop rng i pool 0 = []"
| "sample_loop rng i pool (Suc k) =
     (let j = rng i mod length pool
      in pool ! j # sample_loop rng (Suc i) (butlast (pool[j := last pool])) k)"

definition random_sample :: "(nat \<Rightarrow> nat) \<Rightarrow> 'a list \<Rightarrow> nat \<Rightarrow> error + 'a list" where
  "random_sample rng population k =
     (if length population < k then Inl ValueError
      else Inr (sample_loop rng 0 population k))"

definition random_choice :: "nat \<Rightarrow> 'a list \<Rightarrow> 'a" where
  "random_choice draw seq = seq ! (draw mod length seq)"

section \<open>The data fetching module (\<open>agent_core.py\<close>, part 2)\<close>

text \<open>
  A \<open>DataFrame\<close> is its column names and its rows; \<open>pd.DataFrame()\<close> has neither, and
  \<open>df.empty\<close> holds when either is missing. The rows are left abstract here.
\<close>

record 'r dataframe =
  columns :: "string list"
  rows :: "'r list"

definition DataFrame :: "'r dataframe" where
  "DataFrame = \<lparr>columns = [], rows = []\<rparr>"

definition empty :: "'r dataframe \<Rightarrow> bool" where
  "empty df = (columns df = [] \<or> rows df = [])"

definition required_cols :: "string list" where
  "required_cols = [''product_name'', ''awin_deep_link'', ''product_image'',
                    ''description'', ''price'', ''product_id'']"

text \<open>
  The two library calls are parameters. \<open>http_get url\<close> stands for
  \<open>requests.get(url)\<close> followed by \<open>raise_for_status()\<close>: \<open>Inl e\<close> is a
  \<open>RequestException\<close> with text \<open>e\<close>, \<open>Inr text\<close> the body of a good response.
  \<open>read_csv text sep\<close> stands for \<open>pd.read_csv(io.StringIO(text), sep=sep)\<close>:
  \<open>Inl e\<close> is any exception it raises. The third component of the result lists the
  URLs that were requested, in order.
\<close>

definition parse_feed ::
  "(string \<Rightarrow> char \<Rightarrow> string + 'r dataframe) \<Rightarrow> string \<Rightarrow> string + 'r dataframe" where
  "parse_feed read_csv text =
     (case read_csv text CHR '','' of
        Inl _ \<Rightarrow> read_csv text CHR 0x09
      | Inr df \<Rightarrow> Inr df)"

definition fetch_awin_product_feed ::
  "(string \<Rightarrow> string + string) \<Rightarrow> (string \<Rightarrow> char \<Rightarrow> string + 'r dataframe) \<Rightarrow> string \<Rightarrow>
     'r dataframe \<times> string \<times> string list" where
  "fetch_awin_product_feed http_get read_csv awin_feed_url =
     (if awin_feed_url = [] \<or> contains ''...'' awin_feed_url
      then (DataFrame, ''Please provide a valid AWIN Product Feed URL in the settings.'', [])
      else
        (case http_get awin_feed_url of
           Inl e \<Rightarrow> (DataFrame, ''Error fetching AWIN feed: '' @ e, [awin_feed_url])
         | Inr text \<Rightarrow>
            (case parse_feed read_csv text of
               Inl e \<Rightarrow>
                 (DataFrame,
                  ''An error occurred while parsing the feed: '' @ e @
                    ''. Check if it'' @ QUOTE @ ''s a valid CSV.'',
                  [awin_feed_url])
             | Inr df \<Rightarrow>
                 if \<not> list_all (\<lambda>col. col \<in> set (columns df)) required_cols
                 then (DataFrame,
                       ''Feed is missing one of the required columns: '' @ repr_list required_cols,
                       [awin_feed_url])
                 else (df,
                       ''Successfully fetched and parsed '' @ str_nat (length (rows df)) @
                         '' products from the feed.'',
                       [awin_feed_url]))))"

section \<open>The content enrichment module (\<open>agent_core.py\<close>, part 3)\<close>

text \<open>
  \<open>hashtag_list\<close> is whatever the caller passes, so it is a Python value: \<open>None\<close>, a
  number, a string or a list of values. \<open>len\<close> raises \<open>TypeError\<close> on \<open>None\<close> and on a
  number. A string is a sequence of its one-character strings, so \<open>random.sample\<close>
  accepts it as it accepts a list, and its length is the number of its characters. \<open>tag.strip()\<close> exists on strings only; on any other
  value it raises \<open>AttributeError\<close>.
\<close>

datatype pyval = PyNone | PyInt int | PyStr string | PyList "pyval list"

definition len :: "pyval \<Rightarrow> error + nat" where
  "len v = (case v of
              PyStr s \<Rightarrow> Inr (length (chars s))
            | PyList xs \<Rightarrow> Inr (length xs)
            | _ \<Rightarrow> Inl TypeError)"

definition items :: "pyval \<Rightarrow> pyval list" where
  "items v = (case v of
                PyStr s \<Rightarrow> map PyStr (chars s)
              | PyList xs \<Rightarrow> xs
              | _ \<Rightarrow> [])"

definition tag_strip :: "pyval \<Rightarrow> error + string" where
  "tag_strip tag = (case tag of PyStr s \<Rightarrow> Inr (py_strip s) | _ \<Rightarrow> Inl AttributeError)"

text \<open>
  The hashtag inputs on which no \<open>tag.strip()\<close> can fail: every value that is not a
  list, and every list that holds strings only.
\<close>

fun is_str :: "pyval \<Rightarrow> bool" where
  "is_str (PyStr s) = True"
| "is_str v = False"

definition strings_only :: "pyval \<Rightarrow> bool" where
  "strings_only v = (case v of PyList xs \<Rightarrow> list_all is_str xs | _ \<Rightarrow> True)"

text \<open>The generator \<open>'#' + tag.strip() for tag in ...\<close>, stopping at the first exception.\<close>

fun hashtag_words :: "pyval list \<Rightarrow> error + string list" where
  "hashtag_words [] = Inr []"
| "hashtag_words (tag # tags) =
     (case tag_strip tag of
        Inl e \<Rightarrow> Inl e
      | Inr s \<Rightarrow>
         (case hashtag_words tags of
            Inl e \<Rightarrow> Inl e
          | Inr ws \<Rightarrow> Inr ((CHR ''#'' # s) # ws)))"

text \<open>
  The \<open>try\<close> block that computes \<open>selected_hashtags\<close>. Its handler catches
  \<open>ValueError\<close> and \<open>TypeError\<close> and nothing else.
\<close>

definition try_hashtags :: "(nat \<Rightarrow> nat) \<Rightarrow> pyval \<Rightarrow> error + string" where
  "try_hashtags rng hashtag_list =
     (case len hashtag_list of
        Inl e \<Rightarrow> Inl e
      | Inr n \<Rightarrow>
         (case random_sample rng (items hashtag_list) (min n 3) of
            Inl e \<Rightarrow> Inl e
          | Inr tags \<Rightarrow>
             (case hashtag_words tags of
                Inl e \<Rightarrow> Inl e
              | Inr ws \<Rightarrow> Inr (py_join '' '' ws))))"

definition selected_hashtags :: "(nat \<Rightarrow> nat) \<Rightarrow> pyval \<Rightarrow> error + string" where
  "selected_hashtags rng hashtag_list =
     (case try_hashtags rng hashtag_list of
        Inl e \<Rightarrow> if e = ValueError \<or> e = TypeError then Inr [] else Inl e
      | Inr s \<Rightarrow> Inr s)"

text \<open>
  The three templates. \<open>product_title\<close> and \<open>price\<close> stand for the text that the
  f-string puts in their place.
\<close>

definition descriptions :: "string \<Rightarrow> string \<Rightarrow> string list" where
  "descriptions product_title price =
     [''Loving this '' @ product_title @ ''! Perfect for my home. '' @
        [CHR 0xF0, CHR 0x9F, CHR 0x9B, CHR 0x8D, CHR 0xEF, CHR 0xB8, CHR 0x8F],
      ''Just found this amazing '' @ product_title @ ''. What do you think?'',
      ''Great deal alert! '' @ [CHR 0xF0, CHR 0x9F, CHR 0x9A, CHR 0xA8] @ '' '' @
        product_title @ '' for only '' @ price @ ''!'']"

definition prompt :: "string \<Rightarrow> string \<Rightarrow> string \<Rightarrow> string" where
  "prompt product_title product_desc price =
     ''Write a catchy, 2-sentence Pinterest description for a product called '' @ QUOTE @
     product_title @ QUOTE @ '', described as '' @ QUOTE @ slice_to 100 product_desc @ ''...'' @
     QUOTE @ ''. It costs '' @ price @ ''. Frame it in a lifestyle context.''"

text \<open>
  The branch \<open>if use_openai:\<close>. \<open>chat p\<close> stands for the body of its \<open>try\<close> up to the
  message content, on prompt \<open>p\<close>: \<open>Inl e\<close> is any exception raised there, with text
  \<open>e\<close>, \<open>Inr content\<close> the text of the first choice. The result is \<open>Inl\<close> of the
  message where the source returns early with the flag \<open>False\<close>, and otherwise \<open>Inr\<close> of
  \<open>base_description\<close> as it stands after the branch.
\<close>

definition openai_description ::
  "(string \<Rightarrow> string + string) \<Rightarrow> string \<Rightarrow> string \<Rightarrow> string \<Rightarrow> bool \<Rightarrow> string \<Rightarrow>
     string + string" where
  "openai_description chat product_title product_desc price use_openai openai_api_key =
     (if use_openai then
        if openai_api_key = [] \<or> contains ''...'' openai_api_key
        then Inl ''OpenAI API key is missing. Please provide it in the settings.''
        else
          (case chat (prompt product_title product_desc price) of
             Inl e \<Rightarrow> Inl (''Error with OpenAI: '' @ e @ ''. Falling back to template.'')
           | Inr content \<Rightarrow> Inr (py_strip content))
      else Inr [])"

text \<open>
  \<open>generate_pin_description\<close>. Besides the parameters of the source it takes what the
  outside world answers: \<open>chat\<close> as above, \<open>draw\<close> for \<open>random.choice\<close> and \<open>rng\<close> for
  \<open>random.sample\<close>. \<open>Inl\<close> is an exception that leaves the function; \<open>Inr\<close> is the
  returned pair of text and flag.
\<close>

definition generate_pin_description ::
  "(string \<Rightarrow> string + string) \<Rightarrow> nat \<Rightarrow> (nat \<Rightarrow> nat) \<Rightarrow>
   string \<Rightarrow> string \<Rightarrow> string \<Rightarrow> bool \<Rightarrow> string \<Rightarrow> string \<Rightarrow> pyval \<Rightarrow>
     error + string \<times> bool" where
  "generate_pin_description chat draw rng
       product_title product_desc price use_openai openai_api_key disclaimer hashtag_list =
     (case openai_description chat product_title product_desc price use_openai openai_api_key of
        Inl message \<Rightarrow> Inr (message, False)
      | Inr generated \<Rightarrow>
         (let base_description =
                (if generated = [] then random_choice draw (descriptions product_title price)
                 else generated)
          in case selected_hashtags rng hashtag_list of
               Inl e \<Rightarrow> Inl e
             | Inr hashtags \<Rightarrow>
                 Inr (base_description @ NL @ NL @ hashtags @ NL @ disclaimer, True)))"

text \<open>
  \<open>download_and_format_image\<close> is network, image library and file system throughout.
  \<open>save_image url\<close> stands for the body of its \<open>try\<close>: \<open>Inl e\<close> is an exception with
  text \<open>e\<close>, \<open>Inr u\<close> the \<open>uuid4\<close> under which the image was saved.
\<close>

definition download_and_format_image ::
  "(string \<Rightarrow> string + string) \<Rightarrow> string \<Rightarrow> string option \<times> string" where
  "download_and_format_image save_image image_url =
     (case save_image image_url of
        Inr u \<Rightarrow> (Some (''temp_images/'' @ u @ ''.jpg''),
                  ''Image downloaded and formatted from '' @ image_url)
      | Inl e \<Rightarrow> (None, ''Error processing image '' @ image_url @ '': '' @ e))"

section \<open>The Pinterest module (\<open>agent_core.py\<close>, part 4)\<close>

text \<open>
  \<open>create_pin\<close> simulates the post: it prints six lines and returns a fresh pin id made
  from \<open>uuid4\<close>, which is passed in. The result is the pin id, the message and the
  lines printed.
\<close>

definition create_pin ::
  "string \<Rightarrow> string \<Rightarrow> string \<Rightarrow> string \<Rightarrow> string \<Rightarrow> string \<Rightarrow> string \<Rightarrow>
     string option \<times> string \<times> string list" where
  "create_pin uuid4 pinterest_access_token board_id image_path description product_url title =
     (if pinterest_access_token = [] \<or> contains ''...'' pinterest_access_token
      then (None, ''Pinterest Access Token is missing. Please provide it in the settings.'', [])
      else if board_id = [] \<or> contains ''...'' board_id
      then (None, ''Pinterest Board ID is missing. Please provide it in the settings.'', [])
      else
        (let simulated_pin_id = ''simulated_'' @ uuid4
         in (Some simulated_pin_id,
             ''Pin (simulated) created for '' @ product_url @ '' with Pin ID '' @
               simulated_pin_id @ ''. NOTE: Real posting requires image hosting.'',
             [''--- SIMULATION: Pretending to post to Pinterest ---'',
              ''Board ID: '' @ board_id,
              ''Product URL: '' @ product_url,
              ''Description: '' @ slice_to 100 description @ ''...'',
              ''Image Path: '' @ image_path,
              ''-------------------------------------------------''])))"

section \<open>The application (\<open>app.py\<close>)\<close>

text \<open>
  A row of a feed that passed the column check, read through the six columns the
  application uses. Each field is the text of its cell: the identifier is only ever
  read as \<open>str(product['product_id'])\<close>, and name and price are interpolated into
  f-strings.
\<close>

record product =
  product_id :: string
  product_name :: string
  description :: string
  price :: string
  product_image :: string
  awin_deep_link :: string

text \<open>The dictionary \<open>pin_data\<close>, with its keys prefixed by \<open>pin_\<close>.\<close>

record pin_data =
  pin_product_id :: string
  pin_title :: string
  pin_description :: string
  pin_image_path :: string
  pin_product_url :: string

text \<open>
  What the handlers read and write: the two lists of \<open>st.session_state\<close>, the table of
  the database file, and the lines printed so far.
\<close>

record app =
  pins_to_review :: "pin_data list"
  logs :: "string list"
  posted_products :: database
  stdout :: "string list"

definition add_log :: "string \<Rightarrow> app \<Rightarrow> app" where
  "add_log message st = st\<lparr>logs := message # logs st\<rparr>"

text \<open>Step 3 of the first handler: the loop that keeps the products not yet posted.\<close>

definition unposted_products :: "database \<Rightarrow> product list \<Rightarrow> product list" where
  "unposted_products db products =
     filter (\<lambda>product. \<not> is_product_posted db (product_id product)) products"

text \<open>
  Step 4: \<open>random.sample(unposted_products, min(len(unposted_products), max_pins_per_run))\<close>.
  \<open>max_pins_per_run\<close> comes from a number input with \<open>min_value=1\<close>, so it is a
  natural number.
\<close>

definition products_to_process :: "(nat \<Rightarrow> nat) \<Rightarrow> product list \<Rightarrow> nat \<Rightarrow> error + product list" where
  "products_to_process rng unposted max_pins_per_run =
     random_sample rng unposted (min (length unposted) max_pins_per_run)"

text \<open>What the outside world answers while one product is processed.\<close>

record answers =
  chat_of :: "string \<Rightarrow> string + string"
  draw_of :: nat
  rng_of :: "nat \<Rightarrow> nat"
  save_image_of :: "string \<Rightarrow> string + string"

text \<open>
  Step 5, the body of the loop over \<open>products_to_process\<close>. A description that comes
  back with the flag \<open>False\<close> is logged and the product is skipped (\<open>continue\<close>); so is
  a product whose image could not be prepared.
\<close>

definition process_product ::
  "answers \<Rightarrow> bool \<Rightarrow> string \<Rightarrow> string \<Rightarrow> pyval \<Rightarrow> app \<Rightarrow> product \<Rightarrow> error + app" where
  "process_product w use_openai openai_api_key disclaimer hashtag_list st product =
     (let st1 = add_log (''Processing product: '' @ product_name product) st
      in case generate_pin_description (chat_of w) (draw_of w) (rng_of w)
                (product_name product) (description product) (price product)
                use_openai openai_api_key disclaimer hashtag_list of
           Inl e \<Rightarrow> Inl e
         | Inr (desc, success) \<Rightarrow>
             if \<not> success
             then Inr (add_log (''Failed to generate description: '' @ desc) st1)
             else
               (case download_and_format_image (save_image_of w) (product_image product) of
                  (img_path, msg) \<Rightarrow>
                    (let st2 = add_log msg st1
                     in case img_path of
                          None \<Rightarrow> Inr st2
                        | Some path \<Rightarrow>
                            if path = [] then Inr st2
                            else Inr (st2\<lparr>pins_to_review := pins_to_review st2 @
                                   [\<lparr>pin_product_id = product_id product,
                                     pin_title = product_name product,
                                     pin_description = desc,
                                     pin_image_path = path,
                                     pin_product_url = awin_deep_link product\<rparr>]\<rparr>))))"

fun process_products ::
  "(nat \<Rightarrow> answers) \<Rightarrow> bool \<Rightarrow> string \<Rightarrow> string \<Rightarrow> pyval \<Rightarrow> nat \<Rightarrow> app \<Rightarrow> product list \<Rightarrow>
     error + app" where
  "process_products world use_openai openai_api_key disclaimer hashtag_list i st [] = Inr st"
| "process_products world use_openai openai_api_key disclaimer hashtag_list i st (product # ps) =
     (case process_product (world i) use_openai openai_api_key disclaimer hashtag_list st product of
        Inl e \<Rightarrow> Inl e
      | Inr st' \<Rightarrow>
          process_products world use_openai openai_api_key disclaimer hashtag_list (Suc i) st' ps)"

text \<open>
  The hashtag pool as the application builds it from the text area:
  \<open>[h.strip() for h in hashtags_str.split(',')]\<close>.
\<close>

definition hashtag_list_of :: "string \<Rightarrow> pyval" where
  "hashtag_list_of hashtags_str =
     PyList (map (\<lambda>h. PyStr (py_strip h)) (py_split CHR '','' hashtags_str))"

text \<open>
  The handler of the button ``Fetch Products \& Generate Pins''. \<open>init_database\<close>
  creates the table when it is missing and changes no row, so it leaves
  \<open>posted_products\<close> as it is. \<open>world i\<close> is what the outside world answers while
  the \<open>i\<close>-th product of the batch is processed. The closing message is logged
  after the loop over the batch only, not when every product is posted already. The
  progress bar and the spinners are display only.
\<close>

definition fetch_products_and_generate_pins ::
  "(string \<Rightarrow> string + string) \<Rightarrow> (string \<Rightarrow> char \<Rightarrow> string + product dataframe) \<Rightarrow>
   (nat \<Rightarrow> nat) \<Rightarrow> (nat \<Rightarrow> answers) \<Rightarrow>
   string \<Rightarrow> string \<Rightarrow> string \<Rightarrow> string \<Rightarrow> nat \<Rightarrow> bool \<Rightarrow> app \<Rightarrow> error + app" where
  "fetch_products_and_generate_pins http_get read_csv rng world
       awin_feed_url openai_api_key disclaimer hashtags_str max_pins_per_run use_openai st =
     (let st1 = add_log ''Database initialized.''
                  ((add_log ''Starting agent...'' st)\<lparr>pins_to_review := []\<rparr>);
          hashtag_list = hashtag_list_of hashtags_str
      in case fetch_awin_product_feed http_get read_csv awin_feed_url of
           (products_df, message, requested) \<Rightarrow>
             (let st2 = add_log message st1
              in if \<not> empty products_df then
                   (let unposted = unposted_products (posted_products st2) (rows products_df)
                    in if unposted = []
                       then Inr (add_log
                              ''All fetched products have already been posted. Nothing new to process.''
                              st2)
                       else
                         (let st3 = add_log (''Found '' @ str_nat (length unposted) @
                                             '' new products to process.'') st2
                          in case products_to_process rng unposted max_pins_per_run of
                               Inl e \<Rightarrow> Inl e
                             | Inr batch \<Rightarrow>
                                 (case process_products world use_openai openai_api_key disclaimer
                                         hashtag_list 0 st3 batch of
                                    Inl e \<Rightarrow> Inl e
                                  | Inr st4 \<Rightarrow>
                                      Inr (add_log ([CHR 0xE2, CHR 0x9C, CHR 0x85] @
                                             '' Pin generation complete. Please review the pins below and approve them for posting.'')
                                             st4))))
                 else Inr st2))"

text \<open>
  The handler of the button ``Approve \& Post to Pinterest'' of the pin at index \<open>i\<close>;
  there is no such button beyond the list. \<open>uuid4\<close> and \<open>now\<close> are what \<open>uuid.uuid4()\<close>
  and \<open>datetime.now()\<close> give during the call. The first component of the result is the
  exception that ends the handler, if any. The pin stays in \<open>pins_to_review\<close>; that list
  is assigned only by the other handler.
\<close>

definition approve_and_post :: "string \<Rightarrow> nat \<Rightarrow> string \<Rightarrow> string \<Rightarrow> app \<Rightarrow> nat \<Rightarrow> error option \<times> app" where
  "approve_and_post uuid4 now pinterest_access_token pinterest_board_id st i =
     (if length (pins_to_review st) \<le> i then (None, st)
      else
        (let pin = pins_to_review st ! i
         in case create_pin uuid4 pinterest_access_token pinterest_board_id
                   (pin_image_path pin) (pin_description pin) (pin_product_url pin) (pin_title pin) of
              (created, message, printed) \<Rightarrow>
                (let st1 = add_log message (st\<lparr>stdout := stdout st @ printed\<rparr>)
                 in case created of
                      None \<Rightarrow> (None, st1)
                    | Some pin_id \<Rightarrow>
                        if pin_id = [] then (None, st1)
                        else
                          (case mark_product_posted (posted_products st1) (pin_product_id pin)
                                  pin_id now of
                             Inl e \<Rightarrow> (Some e, st1)
                           | Inr db' \<Rightarrow>
                               (None,
                                add_log ([CHR 0xE2, CHR 0x9C, CHR 0x85] @
                                         '' Successfully posted and marked '' @ QUOTE @
                                         pin_title pin @ QUOTE @ '' as complete.'')
                                  (st1\<lparr>posted_products := db'\<rparr>))))))"

section \<open>Example data\<close>

text \<open>A product of a feed, used where a statement is tried on concrete input.\<close>

definition sample_product :: "string \<Rightarrow> product" where
  "sample_product ident =
     \<lparr>product_id = ident,
      product_name = ''Lamp '' @ ident,
      description = ''A lamp for the desk'',
      price = ''9.99'',
      product_image = ''https://img.example/'' @ ident @ ''.jpg'',
      awin_deep_link = ''https://shop.example/'' @ ident\<rparr>"

text \<open>
  A feed whose fields are separated by tabs and hold no comma: a header line with the six
  required columns and one data line. \<open>read_tab_feed\<close> is what \<open>pd.read_csv\<close> gives
  on this text: with the separator \<open>,\<close> no line is split, so the frame has one column,
  named by the whole header line; with the tab it has the six columns.
\<close>

definition tab_feed_header :: string where
  "tab_feed_header =
     ''product_id'' @ [CHR 0x09] @ ''product_name'' @ [CHR 0x09] @ ''description'' @ [CHR 0x09] @
     ''price'' @ [CHR 0x09] @ ''product_image'' @ [CHR 0x09] @ ''awin_deep_link''"

definition tab_feed_row :: string where
  "tab_feed_row =
     ''17'' @ [CHR 0x09] @ ''Lamp'' @ [CHR 0x09] @ ''A lamp for the desk'' @ [CHR 0x09] @
     ''9.99'' @ [CHR 0x09] @ ''https://img.example/17.jpg'' @ [CHR 0x09] @
     ''https://shop.example/17''"

definition tab_feed :: string where
  "tab_feed = tab_feed_header @ NL @ tab_feed_row @ NL"

definition read_tab_feed :: "string \<Rightarrow> char \<Rightarrow> string + string list dataframe" where
  "read_tab_feed text sep =
     Inr \<lparr>columns = py_split sep tab_feed_header, rows = [py_split sep tab_feed_row]\<rparr>"

text \<open>
  A pin awaiting review, the state that holds it, and the states after the button of
  that pin has been pressed once and twice, with a valid token and board.
\<close>

definition sample_pin :: pin_data where
  "sample_pin =
     \<lparr>pin_product_id = ''a'',
      pin_title = ''Lamp a'',
      pin_description = ''Just found this amazing Lamp a. What do you think?'',
      pin_image_path = ''temp_images/u0.jpg'',
      pin_product_url = ''https://shop.example/a''\<rparr>"

definition review_state :: app where
  "review_state = \<lparr>pins_to_review = [sample_pin], logs = [], posted_products = [], stdout = []\<rparr>"

definition approved_once :: app where
  "approved_once = snd (approve_and_post ''u1'' 1 ''token'' ''board'' review_state 0)"

definition approved_twice :: "error option \<times> app" where
  "approved_twice = approve_and_post ''u2'' 2 ''token'' ''board'' approved_once 0"

text \<open>
  Answers of the outside world under which everything works: the generator returns a
  text and the image is saved. \<open>fresh_state\<close> is the application before anything
  happened.
\<close>

definition quiet_world :: answers where
  "quiet_world =
     \<lparr>chat_of = (\<lambda>p. Inr ''A fine lamp for any desk.''),
      draw_of = 1,
      rng_of = (\<lambda>i. i),
      save_image_of = (\<lambda>url. Inr ''u0'')\<rparr>"

definition fresh_state :: app where
  "fresh_state = \<lparr>pins_to_review = [], logs = [], posted_products = [], stdout = []\<rparr>"

section \<open>Facts about the ledger\<close>

lemma is_product_posted_iff:
  "is_product_posted db ident \<longleftrightarrow> ident \<in> set (map row_product_id db)"
proof -
  have "filter (\<lambda>r. row_product_id r = ident) db \<noteq> [] \<longleftrightarrow>
        ident \<in> set (map row_product_id db)"
    by (induction db) auto
  then show ?thesis
    by (auto simp: is_product_posted_def select_product_id_def split: list.splits)
qed

text \<open>
  C2. A second \<open>mark_product_posted\<close> with the same identifier raises
  \<open>IntegrityError\<close> (the duplicate-key failure) whatever the table held before and
  whatever pin id and time it carries; and when the identifier was new before the first
  call, the first call succeeds and the table has exactly one row more after both calls,
  the row of the first call.
\<close>

theorem mark_product_posted_twice:
  "(case mark_twice db ident pin1 now1 pin2 now2 of
      (r1, r2, db2) \<Rightarrow>
        r2 = Inl IntegrityError \<and>
        (\<not> is_product_posted db ident \<longrightarrow>
           r1 = Inr db2 \<and>
           length db2 = length db + 1 \<and>
           db2 = db @ [\<lparr>row_product_id = ident, row_post_date = now1, row_pin_id = pin1\<rparr>]))"
  by (simp add: mark_twice_def mark_product_posted_def db_after_def is_product_posted_iff)

theorem mark_product_posted_twice_witness:
  "\<not> is_product_posted [] ''p1'' \<and>
   mark_twice [] ''p1'' ''simulated_a'' 10 ''simulated_b'' 11 =
     (Inr [\<lparr>row_product_id = ''p1'', row_post_date = 10, row_pin_id = ''simulated_a''\<rparr>],
      Inl IntegrityError,
      [\<lparr>row_product_id = ''p1'', row_post_date = 10, row_pin_id = ''simulated_a''\<rparr>])"
  using mark_product_posted_twice [where db = "[]" and ident = "''p1''"
      and ?pin1.0 = "''simulated_a''" and ?now1.0 = 10 and ?pin2.0 = "''simulated_b''" and ?now2.0 = 11]
  by (simp add: mark_twice_def mark_product_posted_def db_after_def is_product_posted_iff)

section \<open>Facts about sampling\<close>

text \<open>
  One step of the pool: the element taken leaves the pool, and nothing else changes but
  the order.
\<close>

lemma mset_pool_step:
  assumes "j < length pool"
  shows "mset (butlast (pool[j := last pool])) = mset pool - {#pool ! j#}"
proof (cases pool rule: rev_cases)
  case Nil
  with assms show ?thesis by simp
next
  case (snoc ys y)
  show ?thesis
  proof (cases "j = length ys")
    case True
    with snoc show ?thesis by simp
  next
    case False
    with assms snoc have j: "j < length ys" by simp
    then have "ys ! j \<in># mset ys" by simp
    with j snoc show ?thesis
      by (simp add: list_update_append nth_append mset_update)
  qed
qed

lemma length_sample_loop: "length (sample_loop rng i pool k) = k"
  by (induction k arbitrary: i pool) (simp_all add: Let_def)

lemma mset_sample_loop:
  "k \<le> length pool \<Longrightarrow> mset (sample_loop rng i pool k) \<subseteq># mset pool"
proof (induction k arbitrary: i pool)
  case 0
  then show ?case by simp
next
  case (Suc k)
  define j where "j = rng i mod length pool"
  from Suc.prems have "0 < length pool" by (cases pool) auto
  then have j: "j < length pool" by (simp add: j_def)
  let ?pool' = "butlast (pool[j := last pool])"
  from Suc.prems have "k \<le> length ?pool'" by simp
  then have "mset (sample_loop rng (Suc i) ?pool' k) \<subseteq># mset ?pool'"
    by (rule Suc.IH)
  then have "mset (sample_loop rng (Suc i) ?pool' k) \<subseteq># mset pool - {#pool ! j#}"
    by (simp add: mset_pool_step [OF j])
  moreover from j have "pool ! j \<in># mset pool" by simp
  ultimately have "add_mset (pool ! j) (mset (sample_loop rng (Suc i) ?pool' k)) \<subseteq># mset pool"
    by (simp add: insert_subset_eq_iff)
  then show ?case by (simp add: Let_def j_def)
qed



lemma products_to_process_run:
  "products_to_process rng unposted n =
     Inr (sample_loop rng 0 unposted (min (length unposted) n))"
  by (simp add: products_to_process_def random_sample_def)

section \<open>The intake pipeline\<close>

text \<open>
  C1. Whatever the feed rows, the table and the random draws, the batch chosen for
  enrichment is drawn from the rows of the feed, holds at most \<open>max_pins_per_run\<close>
  products, and no product in it is posted: \<open>is_product_posted\<close> is false on the
  identifier of each, so no identifier of the table is the identifier of a product of
  the batch.
\<close>

theorem intake_excludes_posted:
  "\<exists>batch. products_to_process rng (unposted_products db products) n = Inr batch \<and>
     length batch \<le> n \<and>
     (\<forall>p \<in> set batch. p \<in> set products \<and> \<not> is_product_posted db (product_id p)) \<and>
     (\<forall>ident. is_product_posted db ident \<longrightarrow> ident \<notin> set (map product_id batch))"
proof -
  let ?unposted = "unposted_products db products"
  let ?batch = "sample_loop rng 0 ?unposted (min (length ?unposted) n)"
  have "mset ?batch \<subseteq># mset ?unposted"
    by (rule mset_sample_loop) simp
  then have "set ?batch \<subseteq> set ?unposted"
    by (metis set_mset_mono set_mset_mset)
  then have each: "\<forall>p \<in> set ?batch. p \<in> set products \<and> \<not> is_product_posted db (product_id p)"
    by (auto simp: unposted_products_def)
  then have none: "\<forall>ident. is_product_posted db ident \<longrightarrow> ident \<notin> set (map product_id ?batch)"
    by auto
  have "length ?batch \<le> n"
    by (simp add: length_sample_loop)
  with each none show ?thesis
    by (intro exI [of _ ?batch]) (simp add: products_to_process_run)
qed

theorem intake_excludes_posted_witness:
  "is_product_posted [\<lparr>row_product_id = ''a'', row_post_date = 7, row_pin_id = ''simulated_1''\<rparr>] ''a'' \<and>
   products_to_process (\<lambda>i. i)
     (unposted_products [\<lparr>row_product_id = ''a'', row_post_date = 7, row_pin_id = ''simulated_1''\<rparr>]
        [sample_product ''a'', sample_product ''b'']) 5 = Inr [sample_product ''b'']"
  using intake_excludes_posted [where rng = "\<lambda>i. i" and n = 5
      and db = "[\<lparr>row_product_id = ''a'', row_post_date = 7, row_pin_id = ''simulated_1''\<rparr>]"
      and products = "[sample_product ''a'', sample_product ''b'']"]
  by (simp add: products_to_process_def random_sample_def unposted_products_def
      is_product_posted_iff sample_product_def Let_def)



section \<open>The feed loader\<close>




text \<open>
  C9. For a feed URL that is empty or contains \<open>...\<close>, \<open>fetch_awin_product_feed\<close>
  returns the empty frame and the message that asks for a valid URL, and the list of
  requested URLs is empty: the check comes before \<open>requests.get\<close>, whose answer does
  not matter.
\<close>

theorem placeholder_url_no_request:
  "awin_feed_url = [] \<or> contains ''...'' awin_feed_url \<Longrightarrow>
   fetch_awin_product_feed http_get read_csv awin_feed_url =
     (DataFrame, ''Please provide a valid AWIN Product Feed URL in the settings.'', [])"
  by (simp add: fetch_awin_product_feed_def)

theorem placeholder_url_no_request_witness:
  "contains ''...'' ''https://productdata.awin.com/datafeed/download/apikey/...'' \<and>
   fetch_awin_product_feed (\<lambda>url. Inr ''x'') (\<lambda>text sep. Inl ''unused'')
     ''https://productdata.awin.com/datafeed/download/apikey/...'' =
     ((DataFrame :: nat dataframe), ''Please provide a valid AWIN Product Feed URL in the settings.'', []) \<and>
   fetch_awin_product_feed (\<lambda>url. Inr ''x'') (\<lambda>text sep. Inl ''unused'') [] =
     ((DataFrame :: nat dataframe), ''Please provide a valid AWIN Product Feed URL in the settings.'', [])"
  using placeholder_url_no_request [where awin_feed_url = "''https://productdata.awin.com/datafeed/download/apikey/...''"
       and http_get = "\<lambda>url. Inr ''x''" and read_csv = "\<lambda>text sep. (Inl ''unused'' :: string + nat dataframe)"]
  by (simp add: fetch_awin_product_feed_def)

text \<open>
  C7. The second separator is tried only when \<open>pd.read_csv\<close> raises with the first.
  On the tab-separated feed \<open>tab_feed\<close> the first attempt raises nothing and gives a
  frame with a single column, so the tab is never tried, although with the tab the frame
  has all six required columns and one row: the loader returns the empty frame and the
  schema message.
\<close>

theorem tab_feed_rejected:
  "(\<exists>df. read_tab_feed tab_feed CHR '','' = Inr df \<and>
      columns df = [tab_feed_header] \<and> length (rows df) = 1) \<and>
   (\<exists>df. read_tab_feed tab_feed (CHR 0x09) = Inr df \<and>
      list_all (\<lambda>col. col \<in> set (columns df)) required_cols \<and> length (rows df) = 1) \<and>
   fetch_awin_product_feed (\<lambda>url. Inr tab_feed) read_tab_feed ''https://feed.example/products.tsv'' =
     (DataFrame, ''Feed is missing one of the required columns: '' @ repr_list required_cols,
      [''https://feed.example/products.tsv''])"
  by (simp add: fetch_awin_product_feed_def parse_feed_def read_tab_feed_def tab_feed_header_def
      tab_feed_row_def required_cols_def)

section \<open>Description generation\<close>


lemma hashtag_words_total:
  "list_all is_str tags \<Longrightarrow> \<exists>ws. hashtag_words tags = Inr ws"
proof (induction tags)
  case Nil
  then show ?case by simp
next
  case (Cons tag tags)
  then obtain s ws where "tag = PyStr s" and "hashtag_words tags = Inr ws"
    by (cases tag) auto
  then show ?case by (simp add: tag_strip_def)
qed

lemma sample_loop_all:
  assumes "k \<le> length pool" and "list_all P pool"
  shows "list_all P (sample_loop rng i pool k)"
proof -
  have "mset (sample_loop rng i pool k) \<subseteq># mset pool"
    using assms(1) by (rule mset_sample_loop)
  then have "set (sample_loop rng i pool k) \<subseteq> set pool"
    by (metis set_mset_mono set_mset_mset)
  with assms(2) show ?thesis
    by (auto simp: list_all_iff)
qed


lemma selected_hashtags_total:
  assumes "strings_only v"
  shows "\<exists>hashtags. selected_hashtags rng v = Inr hashtags \<and>
           ((v = PyNone \<or> (\<exists>n. v = PyInt n) \<or> v = PyList [] \<or> v = PyStr []) \<longrightarrow> hashtags = [])"
proof (cases v)
  case PyNone
  then show ?thesis
    by (simp add: selected_hashtags_def try_hashtags_def len_def)
next
  case (PyInt n)
  then show ?thesis
    by (simp add: selected_hashtags_def try_hashtags_def len_def)
next
  case (PyStr s)
  have "list_all is_str (sample_loop rng 0 (map PyStr (chars s)) (min (length (chars s)) 3))"
    by (rule sample_loop_all) (simp_all add: list_all_iff)
  then obtain ws where
    "hashtag_words (sample_loop rng 0 (map PyStr (chars s)) (min (length (chars s)) 3)) = Inr ws"
    using hashtag_words_total by blast
  with PyStr show ?thesis
    by (auto simp: selected_hashtags_def try_hashtags_def len_def items_def random_sample_def)
next
  case (PyList xs)
  with assms have "list_all is_str xs" by (simp add: strings_only_def)
  then have "list_all is_str (sample_loop rng 0 xs (min (length xs) 3))"
    by (intro sample_loop_all) simp_all
  then obtain ws where "hashtag_words (sample_loop rng 0 xs (min (length xs) 3)) = Inr ws"
    using hashtag_words_total by blast
  with PyList show ?thesis
    by (auto simp: selected_hashtags_def try_hashtags_def len_def items_def random_sample_def)
qed

text \<open>The pool that the application passes is always a list of strings.\<close>

lemma strings_only_hashtag_list_of: "strings_only (hashtag_list_of hashtags_str)"
  by (simp add: strings_only_def hashtag_list_of_def list_all_iff)

lemma template_nonempty: "random_choice draw (descriptions title cost) \<noteq> []"
proof -
  have "draw mod 3 < 3" by simp
  then have "draw mod 3 = 0 \<or> draw mod 3 = 1 \<or> draw mod 3 = 2" by linarith
  then show ?thesis
    by (auto simp: random_choice_def descriptions_def)
qed

lemma last_line_append:
  assumes "CHR 0x0A \<notin> set d"
  shows "last_line (pre @ NL @ d) = d"
proof -
  have "takeWhile (\<lambda>c. c \<noteq> CHR 0x0A) (rev d @ CHR 0x0A # rev pre) =
        rev d @ takeWhile (\<lambda>c. c \<noteq> CHR 0x0A) (CHR 0x0A # rev pre)"
    using assms by (intro takeWhile_append2) auto
  then show ?thesis by (simp add: last_line_def)
qed


lemma template_path:
  assumes "openai_description chat title desc cost use_openai key = Inr []"
    and "strings_only hashtag_list"
  shows "\<exists>hashtags.
      generate_pin_description chat draw rng title desc cost use_openai key disclaimer hashtag_list =
        Inr (random_choice draw (descriptions title cost) @ NL @ NL @ hashtags @ NL @ disclaimer, True) \<and>
      ((hashtag_list = PyNone \<or> (\<exists>n. hashtag_list = PyInt n) \<or> hashtag_list = PyList [] \<or>
        hashtag_list = PyStr []) \<longrightarrow> hashtags = [])"
proof -
  from selected_hashtags_total [OF assms(2), of rng] obtain hashtags where
    "selected_hashtags rng hashtag_list = Inr hashtags" and
    "(hashtag_list = PyNone \<or> (\<exists>n. hashtag_list = PyInt n) \<or> hashtag_list = PyList [] \<or>
        hashtag_list = PyStr []) \<longrightarrow> hashtags = []"
    by blast
  with assms(1) show ?thesis
    by (simp add: generate_pin_description_def)
qed



text \<open>
  C10, as stated, fails. A string is not a list, yet \<open>len\<close> and \<open>random.sample\<close>
  accept it, and its characters become the hashtags: the hashtag line is not empty. And
  a list that holds a number makes \<open>tag.strip()\<close> raise \<open>AttributeError\<close>, which the
  handler for \<open>ValueError\<close> and \<open>TypeError\<close> does not catch.
\<close>

theorem hashtag_input_counterexample:
  "generate_pin_description (\<lambda>p. Inl ''unused'') 1 (\<lambda>i. 0) ''Lamp'' ''A lamp'' ''9.99'' False []
     ''#Ad'' (PyStr ''ab'') =
     Inr (''Just found this amazing Lamp. What do you think?'' @ NL @ NL @ ''#a #b'' @ NL @ ''#Ad'',
          True) \<and>
   generate_pin_description (\<lambda>p. Inl ''unused'') 1 (\<lambda>i. 0) ''Lamp'' ''A lamp'' ''9.99'' False []
     ''#Ad'' (PyList [PyInt 1]) = Inl AttributeError"
  by code_simp

text \<open>
  C10, amended. With the generator disabled, and a hashtag input that is \<open>None\<close>, a
  number, a string or a list of strings, \<open>generate_pin_description\<close> returns the flag
  \<open>True\<close> and a non-empty text: a template, an empty line, the hashtag line, and the
  disclaimer after the last line break, so that the final line is the disclaimer when
  the disclaimer has no line break of its own. The hashtag line is empty for \<open>None\<close>,
  for a number, for the empty list and for the empty string.
\<close>

theorem template_description:
  assumes "strings_only hashtag_list"
  shows "\<exists>hashtags text.
      generate_pin_description chat draw rng title desc cost False key disclaimer hashtag_list =
        Inr (text, True) \<and>
      text = random_choice draw (descriptions title cost) @ NL @ NL @ hashtags @ NL @ disclaimer \<and>
      random_choice draw (descriptions title cost) \<noteq> [] \<and>
      text \<noteq> [] \<and>
      (CHR 0x0A \<notin> set disclaimer \<longrightarrow> last_line text = disclaimer) \<and>
      ((hashtag_list = PyNone \<or> (\<exists>n. hashtag_list = PyInt n) \<or> hashtag_list = PyList [] \<or>
        hashtag_list = PyStr []) \<longrightarrow> hashtags = [])"
proof -
  let ?base = "random_choice draw (descriptions title cost)"
  have "openai_description chat title desc cost False key = Inr []"
    by (simp add: openai_description_def)
  from template_path [OF this assms, of draw rng disclaimer] obtain hashtags where
    run: "generate_pin_description chat draw rng title desc cost False key disclaimer hashtag_list =
        Inr (?base @ NL @ NL @ hashtags @ NL @ disclaimer, True)" and
    none: "(hashtag_list = PyNone \<or> (\<exists>n. hashtag_list = PyInt n) \<or> hashtag_list = PyList [] \<or>
        hashtag_list = PyStr []) \<longrightarrow> hashtags = []"
    by blast
  have base: "?base \<noteq> []" by (rule template_nonempty)
  have line: "CHR 0x0A \<notin> set disclaimer \<longrightarrow>
      last_line (?base @ NL @ NL @ hashtags @ NL @ disclaimer) = disclaimer"
  proof
    assume "CHR 0x0A \<notin> set disclaimer"
    then have "last_line ((?base @ NL @ NL @ hashtags) @ NL @ disclaimer) = disclaimer"
      by (rule last_line_append)
    then show "last_line (?base @ NL @ NL @ hashtags @ NL @ disclaimer) = disclaimer"
      by simp
  qed
  from run none base line show ?thesis
    by (intro exI [of _ hashtags] exI [of _ "?base @ NL @ NL @ hashtags @ NL @ disclaimer"]) simp
qed

theorem template_description_witness:
  "strings_only PyNone \<and> CHR 0x0A \<notin> set ''#Ad #CommissionsEarned'' \<and>
   generate_pin_description (\<lambda>p. Inl ''unused'') 1 (\<lambda>i. i) ''Lamp'' ''A lamp'' ''9.99'' False
     ''your_openai_key'' ''#Ad #CommissionsEarned'' PyNone =
     Inr (''Just found this amazing Lamp. What do you think?'' @ NL @ NL @ NL @
          ''#Ad #CommissionsEarned'', True)"
proof -
  have ok: "strings_only PyNone" by (simp add: strings_only_def)
  have nl: "CHR 0x0A \<notin> set ''#Ad #CommissionsEarned''" by simp
  have run: "generate_pin_description (\<lambda>p. Inl ''unused'') 1 (\<lambda>i. i) ''Lamp'' ''A lamp'' ''9.99'' False
     ''your_openai_key'' ''#Ad #CommissionsEarned'' PyNone =
     Inr (''Just found this amazing Lamp. What do you think?'' @ NL @ NL @ NL @
          ''#Ad #CommissionsEarned'', True)"
    by code_simp
  from template_description [OF ok, where chat = "\<lambda>p. Inl ''unused''" and draw = 1
      and rng = "\<lambda>i. i" and title = "''Lamp''" and desc = "''A lamp''" and cost = "''9.99''"
      and key = "''your_openai_key''" and disclaimer = "''#Ad #CommissionsEarned''"]
    ok nl run
  show ?thesis by - (intro conjI, assumption+)
qed

section \<open>Failure of the generator\<close>

text \<open>
  C5, as stated, fails. With the generator enabled and a key that contains \<open>...\<close>,
  \<open>generate_pin_description\<close> returns the flag \<open>False\<close> and no description, although
  the generator would have answered, and the loop of the application logs the failure
  and goes on to the next product: nothing is added to \<open>pins_to_review\<close>.
\<close>

theorem placeholder_key_counterexample:
  "generate_pin_description (chat_of quiet_world) 1 (\<lambda>i. i) ''Lamp a'' ''A lamp for the desk''
     ''9.99'' True ''sk-...'' ''#Ad'' (PyList [PyStr ''Home'']) =
     Inr (''OpenAI API key is missing. Please provide it in the settings.'', False) \<and>
   process_product quiet_world True ''sk-...'' ''#Ad'' (PyList [PyStr ''Home'']) fresh_state
     (sample_product ''a'') =
     Inr \<lparr>pins_to_review = [],
          logs = [''Failed to generate description: OpenAI API key is missing. Please provide it in the settings.'',
                  ''Processing product: Lamp a''],
          posted_products = [], stdout = []\<rparr>"
  by code_simp

lemma key_guard:
  assumes "use_openai" and "key = [] \<or> contains ''...'' key"
  shows "generate_pin_description chat draw rng title desc cost use_openai key disclaimer hashtag_list =
           Inr (''OpenAI API key is missing. Please provide it in the settings.'', False)"
  using assms by (auto simp: generate_pin_description_def openai_description_def)

text \<open>
  When the call of the generator raises, the function returns early as well: the message
  announces the template, the flag is \<open>False\<close>.
\<close>

lemma generator_error_returns_failure:
  assumes "key \<noteq> []" and "\<not> contains ''...'' key"
    and "chat (prompt title desc cost) = Inl e"
  shows "generate_pin_description chat draw rng title desc cost True key disclaimer hashtag_list =
           Inr (''Error with OpenAI: '' @ e @ ''. Falling back to template.'', False)"
  using assms by (simp add: generate_pin_description_def openai_description_def)

text \<open>
  C5, amended. When the generator is enabled and its key is empty or contains \<open>...\<close>,
  \<open>generate_pin_description\<close> returns the message that the key is missing with the
  flag \<open>False\<close>, and the application logs it and skips the product. The template is
  used, and a description returned with the flag \<open>True\<close>, when the generator is
  disabled, and when it is enabled with a usable key and answers with white space only
  (the hashtag input being one on which \<open>strip\<close> cannot fail).
\<close>

theorem key_guard_and_template:
  "(use_openai \<and> (key = [] \<or> contains ''...'' key) \<longrightarrow>
      generate_pin_description chat draw rng title desc cost use_openai key disclaimer hashtag_list =
        Inr (''OpenAI API key is missing. Please provide it in the settings.'', False) \<and>
      process_product w use_openai key disclaimer hashtag_list st product =
        Inr (add_log (''Failed to generate description: '' @
                      ''OpenAI API key is missing. Please provide it in the settings.'')
               (add_log (''Processing product: '' @ product_name product) st))) \<and>
   ((\<not> use_openai \<or>
     (key \<noteq> [] \<and> \<not> contains ''...'' key \<and>
      (\<exists>content. chat (prompt title desc cost) = Inr content \<and> py_strip content = []))) \<and>
    strings_only hashtag_list \<longrightarrow>
      (\<exists>hashtags.
         generate_pin_description chat draw rng title desc cost use_openai key disclaimer hashtag_list =
           Inr (random_choice draw (descriptions title cost) @ NL @ NL @ hashtags @ NL @ disclaimer,
                True)))"
proof (intro conjI impI)
  assume a: "use_openai \<and> (key = [] \<or> contains ''...'' key)"
  then show "generate_pin_description chat draw rng title desc cost use_openai key disclaimer hashtag_list =
        Inr (''OpenAI API key is missing. Please provide it in the settings.'', False)"
    by (intro key_guard) simp_all
  from a have "generate_pin_description (chat_of w) (draw_of w) (rng_of w)
        (product_name product) (description product) (price product)
        use_openai key disclaimer hashtag_list =
        Inr (''OpenAI API key is missing. Please provide it in the settings.'', False)"
    by (intro key_guard) simp_all
  then show "process_product w use_openai key disclaimer hashtag_list st product =
        Inr (add_log (''Failed to generate description: '' @
                      ''OpenAI API key is missing. Please provide it in the settings.'')
               (add_log (''Processing product: '' @ product_name product) st))"
    by (simp add: process_product_def Let_def)
next
  assume b: "(\<not> use_openai \<or>
     (key \<noteq> [] \<and> \<not> contains ''...'' key \<and>
      (\<exists>content. chat (prompt title desc cost) = Inr content \<and> py_strip content = []))) \<and>
    strings_only hashtag_list"
  then have "openai_description chat title desc cost use_openai key = Inr []"
    by (auto simp: openai_description_def)
  from template_path [OF this, of hashtag_list draw rng disclaimer] b
  show "\<exists>hashtags.
         generate_pin_description chat draw rng title desc cost use_openai key disclaimer hashtag_list =
           Inr (random_choice draw (descriptions title cost) @ NL @ NL @ hashtags @ NL @ disclaimer,
                True)"
    by blast
qed

theorem key_guard_and_template_witness:
  "contains ''...'' ''sk-...'' \<and>
   generate_pin_description (chat_of quiet_world) 1 (\<lambda>i. i) ''Lamp a'' ''A lamp for the desk''
     ''9.99'' True ''sk-...'' ''#Ad'' (PyList [PyStr ''Home'']) =
     Inr (''OpenAI API key is missing. Please provide it in the settings.'', False) \<and>
   strings_only (PyList [PyStr ''Home'']) \<and>
   generate_pin_description (chat_of quiet_world) 1 (\<lambda>i. i) ''Lamp a'' ''A lamp for the desk''
     ''9.99'' False ''sk-...'' ''#Ad'' (PyList [PyStr ''Home'']) =
     Inr (''Just found this amazing Lamp a. What do you think?'' @ NL @ NL @ ''#Home'' @ NL @ ''#Ad'',
          True)"
proof -
  have guard: "contains ''...'' ''sk-...''" by simp
  have ok: "strings_only (PyList [PyStr ''Home''])" by (simp add: strings_only_def)
  have off: "generate_pin_description (chat_of quiet_world) 1 (\<lambda>i. i) ''Lamp a'' ''A lamp for the desk''
     ''9.99'' False ''sk-...'' ''#Ad'' (PyList [PyStr ''Home'']) =
     Inr (''Just found this amazing Lamp a. What do you think?'' @ NL @ NL @ ''#Home'' @ NL @ ''#Ad'',
          True)"
    by code_simp
  from key_guard_and_template [where use_openai = True and key = "''sk-...''"
      and chat = "chat_of quiet_world" and draw = 1 and rng = "\<lambda>i. i" and title = "''Lamp a''"
      and desc = "''A lamp for the desk''" and cost = "''9.99''" and disclaimer = "''#Ad''"
      and hashtag_list = "PyList [PyStr ''Home'']" and w = quiet_world and st = fresh_state
      and product = "sample_product ''a''"] guard
  have on: "generate_pin_description (chat_of quiet_world) 1 (\<lambda>i. i) ''Lamp a'' ''A lamp for the desk''
     ''9.99'' True ''sk-...'' ''#Ad'' (PyList [PyStr ''Home'']) =
     Inr (''OpenAI API key is missing. Please provide it in the settings.'', False)"
    by blast
  from key_guard_and_template [where use_openai = False and key = "''sk-...''"
      and chat = "chat_of quiet_world" and draw = 1 and rng = "\<lambda>i. i" and title = "''Lamp a''"
      and desc = "''A lamp for the desk''" and cost = "''9.99''" and disclaimer = "''#Ad''"
      and hashtag_list = "PyList [PyStr ''Home'']" and w = quiet_world and st = fresh_state
      and product = "sample_product ''a''"] guard on ok off
  show ?thesis by - (intro conjI, assumption+)
qed

section \<open>Approval\<close>

text \<open>
  C3. Pressing ``Approve \& Post'' twice on the same pin, with a valid token and board.
  The first press posts the pin and records the product; the pin stays in
  \<open>pins_to_review\<close>. The second press calls \<open>create_pin\<close> again, so the simulated post
  is printed a second time and a second pin id is logged, and then
  \<open>mark_product_posted\<close> raises \<open>IntegrityError\<close>, which the handler does not catch;
  the table keeps its single row.
\<close>

theorem approve_twice_posts_twice:
  "fst (approve_and_post ''u1'' 1 ''token'' ''board'' review_state 0) = None \<and>
   pins_to_review approved_once = [sample_pin] \<and>
   posted_products approved_once =
     [\<lparr>row_product_id = ''a'', row_post_date = 1, row_pin_id = ''simulated_u1''\<rparr>] \<and>
   fst approved_twice = Some IntegrityError \<and>
   count_list (stdout (snd approved_twice))
     ''--- SIMULATION: Pretending to post to Pinterest ---'' = 2 \<and>
   hd (logs (snd approved_twice)) =
     ''Pin (simulated) created for https://shop.example/a with Pin ID simulated_u2. NOTE: Real posting requires image hosting.'' \<and>
   posted_products (snd approved_twice) = posted_products approved_once \<and>
   pins_to_review (snd approved_twice) = [sample_pin]"
  by (simp add: approved_twice_def approved_once_def approve_and_post_def create_pin_def
      review_state_def sample_pin_def add_log_def mark_product_posted_def Let_def)

end
